theory Spec2Isabelle
  imports Complex_Main "HOL-Library.AList"
begin

section \<open>Mini Citadel: the keyed portfolio store\<close>

text \<open>
  A shallow embedding of \<^verbatim>\<open>Finance_Optimization_Snippet.py\<close>: the classes
  \<^verbatim>\<open>PortfolioEngine\<close>, \<^verbatim>\<open>ThreadSafePortfolioEngine\<close> and
  \<^verbatim>\<open>DirectMemoryEngine\<close>.

  Modelling decisions.
  \<^item> Every stock is a Python \<^verbatim>\<open>dict\<close> object that the engine mutates in place and
    hands out by reference. The objects therefore live in an explicit heap (a map from
    references to field records) and \<^verbatim>\<open>portfolio_map\<close> maps a ticker to a reference.
  \<^item> \<^verbatim>\<open>portfolio_map\<close> is an insertion-ordered \<^verbatim>\<open>dict\<close>: an association list with
    \<^const>\<open>AList.update\<close> (replace in place, or append) and \<^const>\<open>map_of\<close> as lookup.
  \<^item> Python integers are \<^typ>\<open>int\<close>. Python floats are idealised as \<^typ>\<open>real\<close>:
    \<^verbatim>\<open>a / b\<close> on integers is the exact quotient; rounding and the overflow of a
    quotient too large for a float are outside the model.
  \<^item> \<^verbatim>\<open>with self.lock\<close> brackets every method body; the model is sequential, one
    method call is one step, and the lock does not appear.
\<close>

subsection \<open>Data model\<close>

text \<open>
  The fields of one stock dictionary, in the order of \<^verbatim>\<open>add_stock\<close>:
  ticker code, name, held quantity, purchase price, current price, change rate,
  profit rate and valuation profit/loss.
\<close>

record stock =
  ticker_code :: string
  stock_name :: string
  quantity :: int
  buy_price :: int
  current_price :: int
  change_rate :: real
  profit_rate :: real
  profit_loss :: int

type_synonym ref = nat

text \<open>
  The engine state: the heap of stock objects created so far, the next unused
  reference, and the dictionary from ticker to reference.
\<close>

record engine =
  objs :: "ref \<rightharpoonup> stock"
  next_ref :: ref
  portfolio_map :: "(string \<times> ref) list"

definition empty_engine :: engine where
  "empty_engine = \<lparr>objs = Map.empty, next_ref = 0, portfolio_map = []\<rparr>"

text \<open>In-place mutation of the object behind a reference.\<close>

definition heap_modify ::
    "ref \<Rightarrow> (stock \<Rightarrow> stock) \<Rightarrow> (ref \<rightharpoonup> stock) \<Rightarrow> (ref \<rightharpoonup> stock)" where
  "heap_modify a f h = h(a := map_option f (h a))"

subsection \<open>PortfolioEngine\<close>

text \<open>
  \<^verbatim>\<open>add_stock\<close>: a new dictionary object is built and stored under the ticker. An
  object stored there before stays on the heap, where a caller may still hold it.
\<close>

definition add_stock :: "string \<Rightarrow> string \<Rightarrow> int \<Rightarrow> int \<Rightarrow> engine \<Rightarrow> engine" where
  "add_stock ticker name qty bp e =
     e\<lparr>objs := (objs e)(next_ref e \<mapsto>
            \<lparr>ticker_code = ticker, stock_name = name, quantity = qty, buy_price = bp,
             current_price = 0, change_rate = 0, profit_rate = 0, profit_loss = 0\<rparr>),
       next_ref := Suc (next_ref e),
       portfolio_map := AList.update ticker (next_ref e) (portfolio_map e)\<rparr>"

text \<open>\<^verbatim>\<open>get_stock\<close> returns \<^verbatim>\<open>self.portfolio_map.get(ticker)\<close>: the object itself.\<close>

definition get_stock :: "string \<Rightarrow> engine \<Rightarrow> ref option" where
  "get_stock ticker e = map_of (portfolio_map e) ticker"

text \<open>
  The assignments made to \<^verbatim>\<open>item\<close> once the ticker has been found. The same
  statements appear in \<^verbatim>\<open>update_price\<close>, \<^verbatim>\<open>update_and_notify\<close> and
  \<^verbatim>\<open>batch_update_prices\<close>; both derived fields are assigned inside the test
  \<^verbatim>\<open>buy_price > 0\<close>.
\<close>

definition update_item :: "int \<Rightarrow> real \<Rightarrow> stock \<Rightarrow> stock" where
  "update_item price rate item =
     (let item1 = item\<lparr>current_price := price\<rparr>;
          item2 = item1\<lparr>change_rate := rate\<rparr>;
          bp = buy_price item2
      in if bp > 0
         then (let item3 = item2\<lparr>profit_rate := (real_of_int price / real_of_int bp - 1) * 100\<rparr>
               in item3\<lparr>profit_loss := (price - bp) * quantity item3\<rparr>)
         else item2)"

definition update_price :: "string \<Rightarrow> int \<Rightarrow> real \<Rightarrow> engine \<Rightarrow> bool \<times> engine" where
  "update_price ticker price rate e =
     (case map_of (portfolio_map e) ticker of
        None \<Rightarrow> (False, e)
      | Some a \<Rightarrow> (True, e\<lparr>objs := heap_modify a (update_item price rate) (objs e)\<rparr>))"


text \<open>What a caller reads through a reference, and through a ticker, in a given state.\<close>

definition deref :: "engine \<Rightarrow> ref \<Rightarrow> stock option" where
  "deref e a = objs e a"

definition lookup :: "string \<Rightarrow> engine \<Rightarrow> stock option" where
  "lookup ticker e = (case get_stock ticker e of None \<Rightarrow> None | Some a \<Rightarrow> deref e a)"





subsection \<open>ThreadSafePortfolioEngine\<close>

fun batch_update_prices :: "(string \<times> int \<times> real) list \<Rightarrow> engine \<Rightarrow> engine" where
  "batch_update_prices [] e = e"
| "batch_update_prices ((ticker, price, rate) # updates) e =
     batch_update_prices updates
       (case map_of (portfolio_map e) ticker of
          None \<Rightarrow> e
        | Some a \<Rightarrow> e\<lparr>objs := heap_modify a (update_item price rate) (objs e)\<rparr>)"

subsection \<open>DirectMemoryEngine\<close>

text \<open>
  A registered callback is an arbitrary callable, invoked with no arguments. It acts on
  the world outside the engine (type \<open>'w\<close>), may read the store, and either returns or
  raises an exception (type \<open>'x\<close>); in both cases its effects on the world remain.
\<close>

datatype ('x, 'w) outcome = Returned 'w | Raised 'x 'w

type_synonym ('x, 'w) callback = "engine \<Rightarrow> 'w \<Rightarrow> ('x, 'w) outcome"

record ('x, 'w) dm_engine =
  dm_store :: engine
  update_callbacks :: "('x, 'w) callback list"

definition register_update_callback ::
    "('x, 'w) callback \<Rightarrow> ('x, 'w) dm_engine \<Rightarrow> ('x, 'w) dm_engine" where
  "register_update_callback callback d = d\<lparr>update_callbacks := update_callbacks d @ [callback]\<rparr>"

text \<open>
  The loop \<^verbatim>\<open>for callback in self.update_callbacks: callback()\<close>. There is no
  \<^verbatim>\<open>try\<close> around the call: an exception leaves the loop and the method. Besides the
  outcome, the function returns the callbacks that were invoked, in the order of
  invocation.
\<close>

fun notify_loop ::
    "('x, 'w) callback list \<Rightarrow> engine \<Rightarrow> 'w \<Rightarrow> ('x, 'w) callback list \<times> ('x, 'w) outcome" where
  "notify_loop [] s w = ([], Returned w)"
| "notify_loop (callback # callbacks) s w =
     (case callback s w of
        Raised x w' \<Rightarrow> ([callback], Raised x w')
      | Returned w' \<Rightarrow>
          (case notify_loop callbacks s w' of (invoked, out) \<Rightarrow> (callback # invoked, out)))"

text \<open>
  \<^verbatim>\<open>update_and_notify\<close>: the update under the lock, then the callbacks. The result is
  the engine after the call, the callbacks invoked and the outcome seen by the caller.
\<close>

definition update_and_notify ::
    "string \<Rightarrow> int \<Rightarrow> real \<Rightarrow> ('x, 'w) dm_engine \<Rightarrow> 'w
      \<Rightarrow> ('x, 'w) dm_engine \<times> ('x, 'w) callback list \<times> ('x, 'w) outcome" where
  "update_and_notify ticker price rate d w =
     (let s = dm_store d;
          s' = (case map_of (portfolio_map s) ticker of
                  None \<Rightarrow> s
                | Some a \<Rightarrow> s\<lparr>objs := heap_modify a (update_item price rate) (objs s)\<rparr>);
          d' = d\<lparr>dm_store := s'\<rparr>
      in (d', notify_loop (update_callbacks d') s' w))"

text \<open>
  Two sample observers for the examples: one appends its name to a log, one does so and
  then raises. \<^verbatim>\<open>DirectMemoryEngine\<close> has no method that fills its
  \<^verbatim>\<open>portfolio_map\<close>; the examples take a store built by \<^const>\<open>add_stock\<close>.
\<close>

definition logging_observer :: "string \<Rightarrow> (string, string list) callback" where
  "logging_observer name s w = Returned (w @ [name])"

definition failing_observer :: "string \<Rightarrow> (string, string list) callback" where
  "failing_observer name s w = Raised name (w @ [name])"

subsection \<open>The derived fields as the specification states them\<close>






subsection \<open>Well-formed and reachable states\<close>

text \<open>
  The dictionary has one entry per ticker, no two tickers share an object, and every
  object in it has been allocated.
\<close>

definition wf :: "engine \<Rightarrow> bool" where
  "wf e \<longleftrightarrow>
     distinct (map fst (portfolio_map e)) \<and> distinct (map snd (portfolio_map e))
     \<and> list_all (\<lambda>a. a < next_ref e \<and> objs e a \<noteq> None) (map snd (portfolio_map e))"


section \<open>Basic facts\<close>

subsection \<open>Assignments to one object\<close>

lemma update_item_fields [simp]:
  "ticker_code (update_item p r s) = ticker_code s"
  "stock_name (update_item p r s) = stock_name s"
  "quantity (update_item p r s) = quantity s"
  "buy_price (update_item p r s) = buy_price s"
  "current_price (update_item p r s) = p"
  "change_rate (update_item p r s) = r"
  by (simp_all add: update_item_def Let_def)


lemma update_item_twice: "update_item p r (update_item p' r' s) = update_item p r s"
  by (simp add: update_item_def Let_def)

subsection \<open>One update and a batch of updates\<close>

lemma update_price_snd:
  "snd (update_price t p r e) =
     (case map_of (portfolio_map e) t of None \<Rightarrow> e
      | Some a \<Rightarrow> e\<lparr>objs := heap_modify a (update_item p r) (objs e)\<rparr>)"
  by (simp add: update_price_def split: option.split)

lemma update_price_frame [simp]:
  "portfolio_map (snd (update_price t p r e)) = portfolio_map e"
  "next_ref (snd (update_price t p r e)) = next_ref e"
  by (simp_all add: update_price_def split: option.split)

lemma batch_Cons_update:
  "batch_update_prices ((t, p, r) # us) e = batch_update_prices us (snd (update_price t p r e))"
  by (simp add: update_price_snd)

lemma batch_frame [simp]:
  "portfolio_map (batch_update_prices us e) = portfolio_map e"
  "next_ref (batch_update_prices us e) = next_ref e"
  by (induction us e rule: batch_update_prices.induct; simp split: option.split)+


lemma objs_update_price:
  "objs (snd (update_price t p r e)) a =
     (if map_of (portfolio_map e) t = Some a then map_option (update_item p r) (objs e a)
      else objs e a)"
  by (simp add: update_price_def heap_modify_def split: option.split)

subsection \<open>Every reachable store is well-formed\<close>

lemma wf_empty: "wf empty_engine"
  by (simp add: wf_def empty_engine_def)

lemma update_snd_subset:
  "set (map snd (AList.update k v al)) \<subseteq> insert v (set (map snd al))"
  by (induction al) auto

lemma distinct_snd_update:
  "distinct (map snd al) \<Longrightarrow> v \<notin> set (map snd al)
     \<Longrightarrow> distinct (map snd (AList.update k v al))"
proof (induction al)
  case Nil
  then show ?case by simp
next
  case (Cons x al)
  then show ?case
    using update_snd_subset [of k v al] by (cases x) auto
qed

lemma wf_add: assumes "wf e" shows "wf (add_stock t n q bp e)"
proof -
  let ?pm = "portfolio_map e"
  from assms have d1: "distinct (map fst ?pm)" and d2: "distinct (map snd ?pm)"
    and lt: "\<forall>a \<in> set (map snd ?pm). a < next_ref e \<and> objs e a \<noteq> None"
    by (simp_all add: wf_def list_all_iff)
  from lt have fresh: "next_ref e \<notin> set (map snd ?pm)" by auto
  have "distinct (map fst (AList.update t (next_ref e) ?pm))"
    using d1 by (simp add: distinct_update)
  moreover have "distinct (map snd (AList.update t (next_ref e) ?pm))"
    using d2 fresh by (rule distinct_snd_update)
  moreover have "\<forall>a \<in> set (map snd (AList.update t (next_ref e) ?pm)).
      a < Suc (next_ref e) \<and> ((objs e)(next_ref e \<mapsto> x)) a \<noteq> None" for x
  proof
    fix a assume "a \<in> set (map snd (AList.update t (next_ref e) ?pm))"
    with update_snd_subset [of t "next_ref e" ?pm]
    have "a = next_ref e \<or> a \<in> set (map snd ?pm)" by blast
    then show "a < Suc (next_ref e) \<and> ((objs e)(next_ref e \<mapsto> x)) a \<noteq> None"
      using lt by (auto simp: less_Suc_eq)
  qed
  ultimately show ?thesis
    by (simp add: wf_def add_stock_def list_all_iff)
qed

lemma wf_update: "wf e \<Longrightarrow> wf (snd (update_price t p r e))"
  by (auto simp: wf_def list_all_iff objs_update_price)



subsection \<open>Reading a ticker after an operation\<close>

lemma lookup_add_same:
  "lookup t (add_stock t n q bp e) =
     Some \<lparr>ticker_code = t, stock_name = n, quantity = q, buy_price = bp,
           current_price = 0, change_rate = 0, profit_rate = 0, profit_loss = 0\<rparr>"
  by (simp add: lookup_def get_stock_def add_stock_def deref_def update_conv')

lemma lookup_update_same:
  "lookup t (snd (update_price t p r e)) = map_option (update_item p r) (lookup t e)"
  by (auto simp: lookup_def get_stock_def update_price_def deref_def heap_modify_def
           split: option.splits)

lemma map_of_distinct_snd:
  assumes "distinct (map snd al)" "map_of al k = Some a" "map_of al k' = Some a"
  shows "k = k'"
proof -
  from assms(1) have "inj_on snd (set al)" by (simp add: distinct_map)
  moreover have "(k, a) \<in> set al" "(k', a) \<in> set al"
    using assms(2,3) by (auto dest: map_of_SomeD)
  ultimately have "(k, a) = (k', a)" by (intro inj_onD [of snd "set al"]) simp_all
  then show ?thesis by simp
qed

lemma lookup_update_other:
  assumes "wf e" "t' \<noteq> t"
  shows "lookup t' (snd (update_price t p r e)) = lookup t' e"
proof (cases "map_of (portfolio_map e) t'")
  case None
  then show ?thesis by (simp add: lookup_def get_stock_def)
next
  case (Some a)
  from assms(1) have "distinct (map snd (portfolio_map e))" by (simp add: wf_def)
  with Some assms(2) have "map_of (portfolio_map e) t \<noteq> Some a"
    using map_of_distinct_snd by fastforce
  with Some show ?thesis
    by (simp add: lookup_def get_stock_def deref_def objs_update_price)
qed

lemma lookup_update:
  "wf e \<Longrightarrow> lookup t' (snd (update_price t p r e)) =
     (if t' = t then map_option (update_item p r) (lookup t e) else lookup t' e)"
  by (simp add: lookup_update_same lookup_update_other)

lemma lookup_batch:
  "wf e \<Longrightarrow> lookup t (batch_update_prices us e) =
     (case map_of (rev us) t of None \<Rightarrow> lookup t e
      | Some (p, r) \<Rightarrow> map_option (update_item p r) (lookup t e))"
proof (induction us arbitrary: e)
  case Nil
  then show ?case by simp
next
  case (Cons u us)
  obtain t' p' r' where u: "u = (t', p', r')" by (cases u)
  have wf': "wf (snd (update_price t' p' r' e))" by (rule wf_update [OF Cons.prems])
  show ?case unfolding u batch_Cons_update Cons.IH [OF wf']
    by (auto simp: lookup_update [OF Cons.prems] map_add_def option.map_comp comp_def
                   update_item_twice
             split: option.splits)
qed

subsection \<open>The invariant of the derived fields\<close>












subsection \<open>Entries of a batch that name no stored ticker\<close>



subsection \<open>The notification loop\<close>


lemma notify_loop_raise:
  assumes "snd (notify_loop pre s w) = Returned w1" and "bad s w1 = Raised x w2"
  shows "notify_loop (pre @ bad # post) s w = (pre @ [bad], Raised x w2)"
  using assms(1)
proof (induction pre arbitrary: w)
  case Nil
  with assms(2) show ?case by simp
next
  case (Cons cb pre)
  show ?case
  proof (cases "cb s w")
    case (Returned w')
    with Cons.prems have "snd (notify_loop pre s w') = Returned w1"
      by (simp split: prod.splits)
    from Cons.IH [OF this] Returned show ?thesis by simp
  next
    case (Raised y w')
    with Cons.prems show ?thesis by simp
  qed
qed

lemma update_and_notify_unfold:
  "update_and_notify t p r d w =
     (d\<lparr>dm_store := snd (update_price t p r (dm_store d))\<rparr>,
      notify_loop (update_callbacks d) (snd (update_price t p r (dm_store d))) w)"
  by (simp add: update_and_notify_def Let_def update_price_snd)

section \<open>The claims\<close>

subsection \<open>Insert followed by update\<close>



text \<open>
  Claim C2, as stated, fails: with purchase price 0 the profit/loss is not recomputed.
  After inserting 10 shares at price 0 and updating to price 5 the profit/loss is 0,
  not \<open>5 * 10\<close>.
\<close>

theorem zero_cost_profit_loss_counterexample:
  "map_option profit_loss
     (lookup ''A'' (snd (update_price ''A'' 5 0 (add_stock ''A'' ''x'' 10 0 empty_engine))))
     = Some 0
   \<and> map_option profit_loss
     (lookup ''A'' (snd (update_price ''A'' 5 0 (add_stock ''A'' ''x'' 10 0 empty_engine))))
     \<noteq> Some (5 * 10)"
  by (simp add: lookup_update_same lookup_add_same update_item_def)

text \<open>
  Claim C2, amended. After \<^verbatim>\<open>add_stock\<close> with purchase price 0 and \<^verbatim>\<open>update_price\<close>
  on the same ticker, the update returns \<^verbatim>\<open>True\<close>, the object carries the given price
  and change rate, and both derived fields keep their insertion value 0: the profit/loss
  is assigned under the same test \<^verbatim>\<open>buy_price > 0\<close> as the profit rate.
\<close>

theorem zero_cost_update:
  "fst (update_price t cp cr (add_stock t n q 0 e)) = True
   \<and> lookup t (snd (update_price t cp cr (add_stock t n q 0 e)))
      = Some \<lparr>ticker_code = t, stock_name = n, quantity = q, buy_price = 0,
               current_price = cp, change_rate = cr, profit_rate = 0, profit_loss = 0\<rparr>"
proof -
  have "map_of (portfolio_map (add_stock t n q 0 e)) t \<noteq> None"
    by (simp add: add_stock_def update_conv')
  then have "fst (update_price t cp cr (add_stock t n q 0 e)) = True"
    by (auto simp: update_price_def split: option.split)
  then show ?thesis
    by (simp add: lookup_update_same lookup_add_same update_item_def)
qed

subsection \<open>Update of an absent ticker\<close>

text \<open>
  Claim C6. If the ticker is not in the store, \<^verbatim>\<open>update_price\<close> returns \<^verbatim>\<open>False\<close>
  and the store is the one before: the same dictionary, of the same size, and the same
  objects.
\<close>

theorem update_absent:
  assumes "get_stock t e = None"
  shows "update_price t p r e = (False, e)
    \<and> length (portfolio_map (snd (update_price t p r e))) = length (portfolio_map e)
    \<and> objs (snd (update_price t p r e)) = objs e"
  using assms by (simp add: get_stock_def update_price_def)

theorem update_absent_witness:
  "get_stock ''000660'' (add_stock ''005930'' ''Sample'' 100 70000 empty_engine) = None
   \<and> update_price ''000660'' 120000 1 (add_stock ''005930'' ''Sample'' 100 70000 empty_engine)
      = (False, add_stock ''005930'' ''Sample'' 100 70000 empty_engine)"
proof -
  have h: "get_stock ''000660'' (add_stock ''005930'' ''Sample'' 100 70000 empty_engine) = None"
    by (simp add: get_stock_def add_stock_def empty_engine_def)
  show ?thesis
    using h update_absent [OF h, of 120000 1] by simp
qed

subsection \<open>Consistency of the derived fields\<close>




subsection \<open>The portfolio summary\<close>



subsection \<open>Batch update\<close>



subsection \<open>What a read returns\<close>




subsection \<open>The frame of a price update\<close>

text \<open>
  Claim C8. In a well-formed store, a record read under any ticker before
  \<^verbatim>\<open>update_price\<close> or \<^verbatim>\<open>batch_update_prices\<close> is still there afterwards with the
  same ticker code, name, quantity and purchase price; and it is the same in every
  field when the operation does not name its ticker.
\<close>

theorem price_update_frame:
  assumes "wf e" and "lookup t' e = Some s"
  shows "(\<exists>s'. lookup t' (snd (update_price t p r e)) = Some s'
            \<and> ticker_code s' = ticker_code s \<and> stock_name s' = stock_name s
            \<and> quantity s' = quantity s \<and> buy_price s' = buy_price s
            \<and> (t' \<noteq> t \<longrightarrow> s' = s))
    \<and> (\<exists>s'. lookup t' (batch_update_prices us e) = Some s'
            \<and> ticker_code s' = ticker_code s \<and> stock_name s' = stock_name s
            \<and> quantity s' = quantity s \<and> buy_price s' = buy_price s
            \<and> (t' \<notin> fst ` set us \<longrightarrow> s' = s))"
proof -
  have "map_of (rev us) t' = None" if "t' \<notin> fst ` set us"
    using that by (simp add: map_of_eq_None_iff)
  then show ?thesis
    using assms(2) by (auto simp: lookup_update [OF assms(1)] lookup_batch [OF assms(1)] split: option.splits)
qed

theorem price_update_frame_witness:
  "wf (add_stock ''B'' ''y'' 3 4 (add_stock ''A'' ''x'' 2 10 empty_engine))
   \<and> lookup ''A'' (add_stock ''B'' ''y'' 3 4 (add_stock ''A'' ''x'' 2 10 empty_engine))
      = Some \<lparr>ticker_code = ''A'', stock_name = ''x'', quantity = 2, buy_price = 10,
               current_price = 0, change_rate = 0, profit_rate = 0, profit_loss = 0\<rparr>
   \<and> (\<exists>s'. lookup ''A'' (snd (update_price ''A'' 12 2
              (add_stock ''B'' ''y'' 3 4 (add_stock ''A'' ''x'' 2 10 empty_engine)))) = Some s'
          \<and> ticker_code s' = ''A'' \<and> stock_name s' = ''x'' \<and> quantity s' = 2 \<and> buy_price s' = 10)
   \<and> (\<exists>s'. lookup ''A'' (batch_update_prices [(''B'', 5, 1)]
              (add_stock ''B'' ''y'' 3 4 (add_stock ''A'' ''x'' 2 10 empty_engine))) = Some s'
          \<and> s' = \<lparr>ticker_code = ''A'', stock_name = ''x'', quantity = 2, buy_price = 10,
               current_price = 0, change_rate = 0, profit_rate = 0, profit_loss = 0\<rparr>)"
proof -
  have h: "wf (add_stock ''B'' ''y'' 3 4 (add_stock ''A'' ''x'' 2 10 empty_engine))"
    by (intro wf_add wf_empty)
  have l: "lookup ''A'' (add_stock ''B'' ''y'' 3 4 (add_stock ''A'' ''x'' 2 10 empty_engine))
      = Some \<lparr>ticker_code = ''A'', stock_name = ''x'', quantity = 2, buy_price = 10,
               current_price = 0, change_rate = 0, profit_rate = 0, profit_loss = 0\<rparr>"
    by (simp add: lookup_def get_stock_def deref_def add_stock_def empty_engine_def)
  from price_update_frame [OF h l, of "''A''" 12 2 "[(''B'', 5, 1)]"] h l
  show ?thesis by auto
qed

subsection \<open>Observers\<close>

text \<open>
  Claim C9, as stated, fails: the loop over the callbacks has no handler. With the
  observers a, b, c registered in this order, b raising, a call of
  \<^verbatim>\<open>update_and_notify\<close> invokes a and b only, and the exception of b reaches the
  caller; c is never invoked.
\<close>

theorem failing_observer_stops_notification_counterexample:
  "update_callbacks
     (register_update_callback (logging_observer ''c'')
       (register_update_callback (failing_observer ''b'')
         (register_update_callback (logging_observer ''a'')
           \<lparr>dm_store = add_stock ''A'' ''x'' 1 10 empty_engine, update_callbacks = []\<rparr>)))
     = [logging_observer ''a'', failing_observer ''b'', logging_observer ''c'']
   \<and> snd (update_and_notify ''A'' 20 1
       (register_update_callback (logging_observer ''c'')
         (register_update_callback (failing_observer ''b'')
           (register_update_callback (logging_observer ''a'')
             \<lparr>dm_store = add_stock ''A'' ''x'' 1 10 empty_engine, update_callbacks = []\<rparr>)))
       [])
     = ([logging_observer ''a'', failing_observer ''b''], Raised ''b'' [''a'', ''b''])"
  by (simp add: update_and_notify_def register_update_callback_def logging_observer_def
      failing_observer_def Let_def)

text \<open>
  Claim C9, amended. When a registered observer raises during notification, after the
  observers registered before it have returned, exactly those observers and the raising
  one have been invoked, no observer registered after it is invoked, and the error
  propagates to the caller of \<^verbatim>\<open>update_and_notify\<close>. The store is the one the update
  left: the failure changes no record. (Observers read the store and act on their own
  state; an observer that itself writes to the store is outside the model.)
\<close>

theorem observer_failure_propagates:
  assumes "update_callbacks d = pre @ bad # post"
    and "snd (notify_loop pre (snd (update_price t p r (dm_store d))) w) = Returned w1"
    and "bad (snd (update_price t p r (dm_store d))) w1 = Raised x w2"
  shows "update_and_notify t p r d w =
           (d\<lparr>dm_store := snd (update_price t p r (dm_store d))\<rparr>, pre @ [bad], Raised x w2)"
  using assms(1) notify_loop_raise [of pre _ w w1 bad x w2 post, OF assms(2,3)]
  by (simp add: update_and_notify_unfold)

theorem observer_failure_propagates_witness:
  "update_callbacks
     \<lparr>dm_store = add_stock ''A'' ''x'' 1 10 empty_engine,
      update_callbacks = [logging_observer ''a''] @ failing_observer ''b'' # [logging_observer ''c'']\<rparr>
     = [logging_observer ''a''] @ failing_observer ''b'' # [logging_observer ''c'']
   \<and> snd (notify_loop [logging_observer ''a'']
        (snd (update_price ''A'' 20 1 (add_stock ''A'' ''x'' 1 10 empty_engine))) [])
      = Returned [''a'']
   \<and> failing_observer ''b''
        (snd (update_price ''A'' 20 1 (add_stock ''A'' ''x'' 1 10 empty_engine))) [''a'']
      = Raised ''b'' [''a'', ''b'']
   \<and> snd (update_and_notify ''A'' 20 1
        \<lparr>dm_store = add_stock ''A'' ''x'' 1 10 empty_engine,
         update_callbacks = [logging_observer ''a''] @ failing_observer ''b'' # [logging_observer ''c'']\<rparr>
        [])
      = ([logging_observer ''a''] @ [failing_observer ''b''], Raised ''b'' [''a'', ''b''])
   \<and> lookup ''A'' (dm_store (fst (update_and_notify ''A'' 20 1
        \<lparr>dm_store = add_stock ''A'' ''x'' 1 10 empty_engine,
         update_callbacks = [logging_observer ''a''] @ failing_observer ''b'' # [logging_observer ''c'']\<rparr>
        [])))
      = Some \<lparr>ticker_code = ''A'', stock_name = ''x'', quantity = 1, buy_price = 10,
               current_price = 20, change_rate = 1, profit_rate = 100, profit_loss = 10\<rparr>"
proof -
  let ?d = "\<lparr>dm_store = add_stock ''A'' ''x'' 1 10 empty_engine,
      update_callbacks = [logging_observer ''a''] @ failing_observer ''b'' # [logging_observer ''c'']\<rparr>"
  have c: "update_callbacks ?d
      = [logging_observer ''a''] @ failing_observer ''b'' # [logging_observer ''c'']"
    by simp
  have n: "snd (notify_loop [logging_observer ''a'']
        (snd (update_price ''A'' 20 1 (dm_store ?d))) [])
      = Returned [''a'']"
    by (simp add: logging_observer_def)
  have b: "failing_observer ''b''
        (snd (update_price ''A'' 20 1 (dm_store ?d))) [''a'']
      = Raised ''b'' [''a'', ''b'']"
    by (simp add: failing_observer_def)
  note r = observer_failure_propagates [OF c n b]
  have l: "lookup ''A'' (dm_store (fst (update_and_notify ''A'' 20 1 ?d [])))
      = Some \<lparr>ticker_code = ''A'', stock_name = ''x'', quantity = 1, buy_price = 10,
               current_price = 20, change_rate = 1, profit_rate = 100, profit_loss = 10\<rparr>"
    unfolding r by (simp add: lookup_update_same lookup_add_same update_item_def)
  from c n b r l show ?thesis by simp
qed




end
